theory Spec2Isabelle
  imports Complex_Main "HOL-Library.Word" "HOL-Library.Multiset"
begin


section \<open>XML names, attributes and numeric parsing\<close>

text \<open>
  \<^verbatim>\<open>xml.Name\<close> and the attribute type of \<^verbatim>\<open>decoder.go\<close>
  (\<^verbatim>\<open>encoding.Attr\<close>: a name and the raw bytes of the value).
\<close>

record XName =
  Space :: string
  Local :: string

record Attr =
  AName :: XName
  Value :: string

type_synonym uint32 = "32 word"
type_synonym uint24 = "24 word"

datatype NumError = ErrSyntax | ErrRange

text \<open>
  \<^verbatim>\<open>strconv.ParseUint(s, 10, bitSize)\<close> of the Go standard library, for base 10:
  the empty string and any byte that is not a decimal digit give \<open>(0, ErrSyntax)\<close> (a
  letter is a digit of value at least 10, which base 10 rejects the same way); a value
  above \<open>2 ^ bitSize - 1\<close> gives \<open>(2 ^ bitSize - 1, ErrRange)\<close>. The accumulator is a
  \<^verbatim>\<open>uint64\<close>: the multiplication is guarded by the cutoff, the addition wraps.
\<close>

definition cutoff10 :: nat where
  "cutoff10 = (2 ^ 64 - 1) div 10 + 1"

fun ParseUint_digits :: "nat \<Rightarrow> nat \<Rightarrow> string \<Rightarrow> nat \<times> NumError option" where
  "ParseUint_digits maxVal n [] = (n, None)"
| "ParseUint_digits maxVal n (c # cs) =
     (if \<not> (48 \<le> (of_char c :: nat) \<and> (of_char c :: nat) \<le> 57) then (0, Some ErrSyntax)
      else if cutoff10 \<le> n then (maxVal, Some ErrRange)
      else
        let n10 = n * 10;
            n1 = (n10 + (of_char c - 48)) mod 2 ^ 64
        in if n1 < n10 \<or> maxVal < n1 then (maxVal, Some ErrRange)
           else ParseUint_digits maxVal n1 cs)"

definition ParseUint :: "string \<Rightarrow> nat \<Rightarrow> nat \<times> NumError option" where
  "ParseUint s bitSize =
     (if s = [] then (0, Some ErrSyntax)
      else ParseUint_digits (2 ^ bitSize - 1) 0 s)"

section \<open>Mesh data\<close>

text \<open>
  A 32-bit float as far as the decoders need it: they only store what
  \<^verbatim>\<open>strconv.ParseFloat\<close> returns and never compute with it. \<open>Nearest q\<close> stands for
  the float nearest to the rational \<open>q\<close>; the zero value of a Go \<^verbatim>\<open>float32\<close> is
  \<open>Nearest 0\<close>.
\<close>

datatype float32 = Nearest rat | PosInf | NegInf | NaN

record Point3D =
  X :: float32
  Y :: float32
  Z :: float32

text \<open>
  Modelled from the spec: the \<^verbatim>\<open>Triangle\<close> type is not part of the sources at hand
  (three 24-bit vertex indices packed with a property reference). \<open>V1\<close>, \<open>V2\<close>, \<open>V3\<close>
  are the entries \<^verbatim>\<open>t[0]\<close>, \<^verbatim>\<open>t[1]\<close>, \<^verbatim>\<open>t[2]\<close> (\<^verbatim>\<open>ToUint24\<close> keeps the low 24
  bits); \<open>PID\<close> is the argument of \<^verbatim>\<open>SetPID\<close> and \<open>P1\<close>, \<open>P2\<close>, \<open>P3\<close> are the
  arguments of \<^verbatim>\<open>SetPIndices\<close>, as the decoder hands them over.
\<close>

record Triangle =
  V1 :: uint24
  V2 :: uint24
  V3 :: uint24
  PID :: uint32
  P1 :: uint32
  P2 :: uint32
  P3 :: uint32

definition ToUint24 :: "uint32 \<Rightarrow> uint24" where
  "ToUint24 v = ucast v"

definition zeroTriangle :: Triangle where
  "zeroTriangle = \<lparr>V1 = 0, V2 = 0, V3 = 0, PID = 0, P1 = 0, P2 = 0, P3 = 0\<rparr>"

record Mesh =
  Vertices :: "Point3D list"
  Triangles :: "Triangle list"

section \<open>Attribute errors\<close>

text \<open>
  The errors of package \<^verbatim>\<open>errors\<close> as the decoders build them:
  \<^verbatim>\<open>NewParseAttrError(name, required)\<close> for a present attribute with a bad value;
  a missing mandatory attribute would be a \<open>MissingFieldError\<close>. \<^verbatim>\<open>Append\<close>
  collects them in order, \<^verbatim>\<open>WrapIndex\<close> tags the collection with the element and its
  index among its siblings.
\<close>

datatype FieldError = ParseAttrError string bool | MissingFieldError string

datatype 'a IndexedError = WrapIndex "FieldError list" 'a nat

section \<open>The triangle decoder\<close>

record triangleDecoder =
  defaultPropertyIndex :: uint32
  defaultPropertyID :: uint32

definition applyDefault :: "uint32 \<Rightarrow> uint32 \<Rightarrow> bool \<Rightarrow> uint32" where
  "applyDefault val defVal noDef = (if noDef then val else defVal)"

text \<open>The local variables of \<^verbatim>\<open>triangleDecoder.Start\<close>.\<close>

record triangleVars =
  t :: Triangle
  pid :: uint32
  p1 :: uint32
  p2 :: uint32
  p3 :: uint32
  hasPID :: bool
  hasP1 :: bool
  hasP2 :: bool
  hasP3 :: bool
  errs :: "FieldError list"

definition triangleVars0 :: triangleVars where
  "triangleVars0 = \<lparr>t = zeroTriangle, pid = 0, p1 = 0, p2 = 0, p3 = 0,
     hasPID = False, hasP1 = False, hasP2 = False, hasP3 = False, errs = []\<rparr>"

text \<open>One iteration of the loop over the attributes (the switch is on the local name only).\<close>

definition triangleAttr :: "Attr \<Rightarrow> triangleVars \<Rightarrow> triangleVars" where
  "triangleAttr a s =
     (let (val, err) = ParseUint (Value a) 24;
          v = (of_nat val :: uint32);
          n = Local (AName a);
          (s1, required) =
            (if n = ''v1'' then (s\<lparr>t := (t s)\<lparr>V1 := ToUint24 v\<rparr>\<rparr>, True)
             else if n = ''v2'' then (s\<lparr>t := (t s)\<lparr>V2 := ToUint24 v\<rparr>\<rparr>, True)
             else if n = ''v3'' then (s\<lparr>t := (t s)\<lparr>V3 := ToUint24 v\<rparr>\<rparr>, True)
             else if n = ''pid'' then (s\<lparr>pid := v, hasPID := True\<rparr>, False)
             else if n = ''p1'' then (s\<lparr>p1 := v, hasP1 := True\<rparr>, False)
             else if n = ''p2'' then (s\<lparr>p2 := v, hasP2 := True\<rparr>, False)
             else if n = ''p3'' then (s\<lparr>p3 := v, hasP3 := True\<rparr>, False)
             else (s, True))
      in if err \<noteq> None then s1\<lparr>errs := errs s1 @ [ParseAttrError n required]\<rparr> else s1)"

definition triangleDecoder_Start ::
  "triangleDecoder \<Rightarrow> Attr list \<Rightarrow> Mesh \<Rightarrow> Triangle IndexedError option \<times> Mesh" where
  "triangleDecoder_Start d attrs mesh =
     (let s = fold triangleAttr attrs triangleVars0;
          p1' = applyDefault (p1 s) (defaultPropertyIndex d) (hasP1 s);
          p2' = applyDefault (p2 s) p1' (hasP2 s);
          p3' = applyDefault (p3 s) p1' (hasP3 s);
          pid' = applyDefault (pid s) (defaultPropertyID d) (hasPID s);
          t' = (t s)\<lparr>PID := pid', P1 := p1', P2 := p2', P3 := p3'\<rparr>;
          mesh' = mesh\<lparr>Triangles := Triangles mesh @ [t']\<rparr>
      in if errs s \<noteq> [] then (Some (WrapIndex (errs s) t' (length (Triangles mesh') - 1)), mesh')
         else (None, mesh'))"


definition attrsNamed :: "string \<Rightarrow> Attr list \<Rightarrow> Attr list" where
  "attrsNamed n attrs = filter (\<lambda>a. Local (AName a) = n) attrs"

definition parsed24 :: "Attr \<Rightarrow> uint32" where
  "parsed24 a = of_nat (fst (ParseUint (Value a) 24))"

definition reported :: "'a IndexedError option \<Rightarrow> FieldError list" where
  "reported e = (case e of None \<Rightarrow> [] | Some (WrapIndex es _ _) \<Rightarrow> es)"

section \<open>The vertex decoder\<close>














section \<open>Extension collections\<close>

text \<open>
  \<^verbatim>\<open>ExtensionsAttr.Get\<close> and \<^verbatim>\<open>Extensions.Get\<close> inspect their target with package
  \<^verbatim>\<open>reflect\<close>. A target is the nil interface, a value that is not a pointer, a nil
  pointer, or a pointer to a variable of some element type. What \<^verbatim>\<open>reflect\<close>
  answers about types is a parameter: the dynamic type of a stored value, whether a
  type is an interface, whether it implements the marshaler in question, and
  assignability. A collection is \<open>None\<close> for the nil slice; an entry is \<open>None\<close> for
  a nil interface value.
\<close>

datatype 'ty target = NilTarget | NonPointer 'ty | NilPointer 'ty | Pointer 'ty

record ('v, 'ty) reflect =
  TypeOf :: "'v \<Rightarrow> 'ty"
  IsInterface :: "'ty \<Rightarrow> bool"
  ImplementsMarshalerAttr :: "'ty \<Rightarrow> bool"
  ImplementsMarshaler :: "'ty \<Rightarrow> bool"
  AssignableTo :: "'ty \<Rightarrow> 'ty \<Rightarrow> bool"

text \<open>\<open>Return b w\<close>: the call returns \<open>b\<close>, and \<open>w\<close> is what it stored through the target.\<close>

datatype 'v getResult = Panic string | Return bool "'v option"

fun firstAssignable :: "('v, 'ty) reflect \<Rightarrow> 'ty \<Rightarrow> 'v option list \<Rightarrow> 'v getResult" where
  "firstAssignable R targetType [] = Return False None"
| "firstAssignable R targetType (v # vs) =
     (case v of
        Some w \<Rightarrow> if AssignableTo R (TypeOf R w) targetType then Return True (Some w)
                  else firstAssignable R targetType vs
      | None \<Rightarrow> firstAssignable R targetType vs)"

definition ExtensionsAttr_Get ::
  "('v, 'ty) reflect \<Rightarrow> 'v option list option \<Rightarrow> 'ty target \<Rightarrow> 'v getResult" where
  "ExtensionsAttr_Get R e target =
     (case e of
        None \<Rightarrow> Return False None
      | Some es \<Rightarrow>
          if length es = 0 then Return False None
          else
            (case target of
               NilTarget \<Rightarrow> Panic ''go3mf: target cannot be nil''
             | NonPointer _ \<Rightarrow> Panic ''go3mf: target must be a non-nil pointer''
             | NilPointer _ \<Rightarrow> Panic ''go3mf: target must be a non-nil pointer''
             | Pointer el \<Rightarrow>
                 if \<not> IsInterface R el \<and> \<not> ImplementsMarshalerAttr R el
                 then Panic ''go3mf: *target must be interface or implement AttrMarshaler''
                 else firstAssignable R el es))"

definition Extensions_Get ::
  "('v, 'ty) reflect \<Rightarrow> 'v option list option \<Rightarrow> 'ty target \<Rightarrow> 'v getResult" where
  "Extensions_Get R e target =
     (case e of
        None \<Rightarrow> Return False None
      | Some es \<Rightarrow>
          if length es = 0 then Return False None
          else
            (case target of
               NilTarget \<Rightarrow> Panic ''go3mf: target cannot be nil''
             | NonPointer _ \<Rightarrow> Panic ''go3mf: target must be a non-nil pointer''
             | NilPointer _ \<Rightarrow> Panic ''go3mf: target must be a non-nil pointer''
             | Pointer el \<Rightarrow>
                 if \<not> IsInterface R el \<and> \<not> ImplementsMarshaler R el
                 then Panic ''go3mf: *target must be interface or implement Marshaler''
                 else firstAssignable R el es))"

section \<open>Errors, tokens and token streams\<close>

text \<open>
  Errors as the orchestrator sees them: \<^verbatim>\<open>io.EOF\<close>, the error of a cancelled context,
  and any other error value, told apart by its text (\<^verbatim>\<open>errors.New\<close>, errors of the
  container and of the XML reader, warnings of the element decoders).
\<close>

datatype error = EOF | Canceled | Err string

text \<open>A run-time panic of the Go program.\<close>

datatype panic = IndexOutOfRange | NilDereference

text \<open>
  The state of a \<^verbatim>\<open>context.Context\<close> during one call: \<open>None\<close> while it is live,
  \<open>Some e\<close> once \<^verbatim>\<open>Done\<close> is closed and \<^verbatim>\<open>Err\<close> returns \<open>e\<close>. The caller's context
  is taken to keep its state for the duration of a call.
\<close>

type_synonym Context = "error option"

type_synonym int64 = "64 word"

datatype Token = StartElement XName "Attr list" | CharData string | EndElement XName | OtherToken

text \<open>
  An \<^verbatim>\<open>XMLDecoder\<close>: the tokens \<^verbatim>\<open>Token\<close> will return, each with the value of
  \<^verbatim>\<open>InputOffset\<close> after it was read, and the error \<^verbatim>\<open>Token\<close> returns once they are
  used up (\<^verbatim>\<open>io.EOF\<close> at a regular end).
\<close>

type_synonym Items = "(Token \<times> int64) list"

record XMLDecoder =
  items :: Items
  endErr :: error

text \<open>
  \<^verbatim>\<open>Skip\<close> reads tokens until it has consumed the end element matching the most recent
  start element already consumed: it counts nested start elements. \<open>None\<close>: the tokens
  ran out first, and \<^verbatim>\<open>Skip\<close> returns the error of \<^verbatim>\<open>Token\<close>.
\<close>

fun Skip :: "nat \<Rightarrow> Items \<Rightarrow> Items option" where
  "Skip depth [] = None"
| "Skip depth ((StartElement n a, off) # rest) = Skip (Suc depth) rest"
| "Skip depth ((EndElement n, off) # rest) =
     (case depth of 0 \<Rightarrow> Some rest | Suc k \<Rightarrow> Skip k rest)"
| "Skip depth ((CharData c, off) # rest) = Skip depth rest"
| "Skip depth ((OtherToken, off) # rest) = Skip depth rest"

section \<open>Package, model and decoder\<close>

record Relationship =
  rPath :: string
  rType :: string

text \<open>
  What \<^verbatim>\<open>Open\<close> of a part yields: the bytes that can be read and the error, if any,
  that ends the reading.
\<close>

type_synonym content = "string \<times> error option"

datatype packageFile = PackageFile
  (Name: string)
  (ContentType: string)
  (FindFileFromName: "string \<Rightarrow> packageFile option")
  (Relationships: "Relationship list")
  (Open: "error + content")

record packageReader =
  pOpen :: "error option"
  pFindFileFromName :: "string \<Rightarrow> packageFile option"
  pRelationships :: "Relationship list"

text \<open>
  The relationship type and the names of the core namespace are constants of the
  package that are not in the sources at hand; the values are those of the 3MF core
  specification, and no statement below depends on them.
\<close>

definition RelType3DModel :: string where
  "RelType3DModel = ''http://schemas.microsoft.com/3dmanufacturing/2013/01/3dmodel''"

definition Namespace :: string where
  "Namespace = ''http://schemas.microsoft.com/3dmanufacturing/core/2015/02''"

definition attrModel :: string where
  "attrModel = ''model''"

definition DefaultModelPath :: string where
  "DefaultModelPath = ''/3D/3dmodel.model''"

definition ContentType3DModel :: string where
  "ContentType3DModel = ''application/vnd.ms-package.3dmanufacturing-3dmodel+xml''"

record Attachment =
  aStream :: string
  aPath :: string
  aContentType :: string

record 'r ChildModel =
  cResources :: "'r list"
  cRelationships :: "Relationship list"

datatype Spec = Spec (specSpace: string) (isExtensionDecoder: bool)

text \<open>
  The fields of \<^verbatim>\<open>Model\<close> that the orchestrator reads or writes. \<open>'r\<close> is the type of
  a resource and \<open>'b\<close> the type of a build item.
\<close>

record ('r, 'b) Model =
  mPath :: string
  mSpecs :: "Spec list"
  mChilds :: "string \<rightharpoonup> 'r ChildModel"
  mAttachments :: "Attachment list"
  mRelationships :: "Relationship list"
  mRootRelationships :: "Relationship list"
  mResources :: "'r list"
  mBuildItems :: "'b list"

text \<open>
  The \<^verbatim>\<open>Scanner\<close> of one model part. \<open>sObjects\<close> stands for the objects the element
  decoders of the part own and mutate while it is scanned.
\<close>

record ('x, 'r, 'b) Scanner =
  extensionDecoder :: "(string \<times> Spec) list"
  sIsRoot :: bool
  sStrict :: bool
  sModelPath :: string
  sElement :: string
  sErr :: "error option"
  sWarnings :: "error list"
  sResources :: "'r list"
  sBuildItems :: "'b list"
  sObjects :: 'x

text \<open>
  The \<^verbatim>\<open>NodeDecoder\<close> interface. The element decoders of this version of the reader
  are not in the sources at hand, so they are a parameter: \<open>Child\<close> offers a decoder
  for a child element or none, \<open>Start\<close>, \<open>Text\<close> and \<open>End\<close> act on the scanner they
  were given by \<^verbatim>\<open>SetScanner\<close>. \<open>TopLevel\<close> is the value of
  \<^verbatim>\<open>&topLevelDecoder{isRoot, model}\<close> and \<open>Objects0\<close> the objects before scanning.
\<close>

record ('d, 'x, 'r, 'b) NodeDecoder =
  Child :: "'d \<Rightarrow> XName \<Rightarrow> ('x, 'r, 'b) Scanner \<Rightarrow> 'd option"
  Start :: "'d \<Rightarrow> Attr list \<Rightarrow> ('x, 'r, 'b) Scanner \<Rightarrow> ('x, 'r, 'b) Scanner"
  Text :: "'d \<Rightarrow> string \<Rightarrow> ('x, 'r, 'b) Scanner \<Rightarrow> ('x, 'r, 'b) Scanner"
  End :: "'d \<Rightarrow> ('x, 'r, 'b) Scanner \<Rightarrow> ('x, 'r, 'b) Scanner"
  TopLevel :: "bool \<Rightarrow> ('r, 'b) Model \<Rightarrow> 'd"
  Objects0 :: 'x

text \<open>
  What a run decodes, in order: an observation of the calls of \<^verbatim>\<open>readChildModel\<close>
  (with the index of the task) and of \<^verbatim>\<open>processRootModel\<close>.
\<close>

datatype PartEvent = ReadChildModel nat | ProcessRootModel

text \<open>
  The \<^verbatim>\<open>Decoder\<close>. \<open>tokenReader\<close> is the method of that name (the custom factory
  \<^verbatim>\<open>x\<close>, or \<^verbatim>\<open>xml.NewDecoder\<close>); the decompressor only reaches \<^verbatim>\<open>Open\<close> of the
  container. \<open>decoded\<close> is not a field of the Go struct: it records the part events.
\<close>

record Decoder =
  Strict :: bool
  Warnings :: "error list"
  pkg :: packageReader
  tokenReader :: "content \<Rightarrow> XMLDecoder"
  nonRootModels :: "packageFile list"
  decoded :: "PartEvent list"

section \<open>Scanning one model part\<close>

definition checkEveryBytes :: int64 where
  "checkEveryBytes = 4 * 1024 * 1024"

text \<open>The local variables of the loop of \<^verbatim>\<open>decodeModelFile\<close>.\<close>

record ('d, 'x, 'r, 'b) loopVars =
  currentDecoder :: 'd
  currentName :: XName
  state :: "'d list"
  names :: "XName list"
  nextBytesCheck :: int64
  scanner :: "('x, 'r, 'b) Scanner"

text \<open>
  One iteration of the loop after \<^verbatim>\<open>Token\<close> returned the token \<open>tok\<close> without error
  (which sets \<^verbatim>\<open>scanner.Err\<close> to nil): the new variables and the tokens left to read.
  Popping from an empty stack is an index out of range.
\<close>

definition handleToken ::
  "('d, 'x, 'r, 'b) NodeDecoder \<Rightarrow> Context \<Rightarrow> error \<Rightarrow> ('d, 'x, 'r, 'b) loopVars \<Rightarrow> Token \<Rightarrow> int64
     \<Rightarrow> Items \<Rightarrow> panic + (('d, 'x, 'r, 'b) loopVars \<times> Items)" where
  "handleToken H ctx eerr v tok off rest =
     (let sc = (scanner v)\<lparr>sErr := None\<rparr> in
      case tok of
        StartElement name attrs \<Rightarrow>
          (case Child H (currentDecoder v) name sc of
             Some tmpDecoder \<Rightarrow>
               Inr (v\<lparr>state := state v @ [currentDecoder v],
                       names := names v @ [currentName v],
                       currentName := name,
                       currentDecoder := tmpDecoder,
                       scanner := Start H tmpDecoder attrs (sc\<lparr>sElement := Local name\<rparr>)\<rparr>, rest)
           | None \<Rightarrow>
               (case Skip 0 rest of
                  Some rest' \<Rightarrow> Inr (v\<lparr>scanner := sc\<rparr>, rest')
                | None \<Rightarrow> Inr (v\<lparr>scanner := sc\<lparr>sErr := Some eerr\<rparr>\<rparr>, [])))
      | CharData txt \<Rightarrow> Inr (v\<lparr>scanner := Text H (currentDecoder v) txt sc\<rparr>, rest)
      | EndElement name \<Rightarrow>
          (let popped =
                 (if currentName v = name then
                    (if state v = [] \<or> names v = [] then Inl IndexOutOfRange
                     else Inr (v\<lparr>scanner := End H (currentDecoder v) (sc\<lparr>sElement := Local name\<rparr>),
                                 currentDecoder := last (state v), state := butlast (state v),
                                 currentName := last (names v), names := butlast (names v)\<rparr>))
                  else Inr (v\<lparr>scanner := sc\<rparr>))
           in case popped of
                Inl e \<Rightarrow> Inl e
              | Inr v1 \<Rightarrow>
                  if sint (nextBytesCheck v1) < sint off then
                    Inr (v1\<lparr>scanner := (case ctx of Some e \<Rightarrow> (scanner v1)\<lparr>sErr := Some e\<rparr>
                                                   | None \<Rightarrow> scanner v1),
                             nextBytesCheck := nextBytesCheck v1 + checkEveryBytes\<rparr>, rest)
                  else Inr (v1, rest))
      | OtherToken \<Rightarrow> Inr (v\<lparr>scanner := sc\<rparr>, rest))"

function scanLoop ::
  "('d, 'x, 'r, 'b) NodeDecoder \<Rightarrow> Context \<Rightarrow> error \<Rightarrow> ('d, 'x, 'r, 'b) loopVars \<Rightarrow> Items
     \<Rightarrow> panic + ('x, 'r, 'b) Scanner" where
  "scanLoop H ctx eerr v [] = Inr ((scanner v)\<lparr>sErr := Some eerr\<rparr>)"
| "scanLoop H ctx eerr v ((tok, off) # rest) =
     (case handleToken H ctx eerr v tok off rest of
        Inl e \<Rightarrow> Inl e
      | Inr (v', rest') \<Rightarrow>
          if sErr (scanner v') \<noteq> None then Inr (scanner v')
          else scanLoop H ctx eerr v' rest')"
  by pat_completeness auto
termination
proof -
  have shorter: "length ys \<le> length its" if "Skip depth its = Some ys" for depth its ys
    using that by (induction depth its rule: Skip.induct) (auto split: nat.splits)
  show ?thesis
    by (relation "measure (\<lambda>(H, ctx, eerr, v, its). length its)")
       (auto simp add: handleToken_def Let_def less_Suc_eq_le dest: shorter
          split: Token.splits option.splits sum.splits if_splits)
qed

definition storeExtension :: "Spec \<Rightarrow> (string \<times> Spec) list \<Rightarrow> (string \<times> Spec) list" where
  "storeExtension ext m =
     (if isExtensionDecoder ext
      then filter (\<lambda>(k, _). k \<noteq> specSpace ext) m @ [(specSpace ext, ext)]
      else m)"

definition decodeModelFile ::
  "('d, 'x, 'r, 'b) NodeDecoder \<Rightarrow> Context \<Rightarrow> XMLDecoder \<Rightarrow> ('r, 'b) Model \<Rightarrow> string \<Rightarrow> bool \<Rightarrow> bool
     \<Rightarrow> panic + ('x, 'r, 'b) Scanner" where
  "decodeModelFile H ctx xd model path isRoot strict =
     (let scanner0 = \<lparr>extensionDecoder = fold storeExtension (mSpecs model) [],
                      sIsRoot = isRoot, sStrict = strict, sModelPath = path, sElement = [],
                      sErr = None, sWarnings = [], sResources = [], sBuildItems = [],
                      sObjects = Objects0 H\<rparr>;
          v0 = \<lparr>currentDecoder = TopLevel H isRoot model,
                 currentName = \<lparr>Space = [], Local = []\<rparr>,
                 state = [], names = [],
                 nextBytesCheck = checkEveryBytes,
                 scanner = scanner0\<rparr>
      in case scanLoop H ctx (endErr xd) v0 (items xd) of
           Inl e \<Rightarrow> Inl e
         | Inr sc \<Rightarrow> Inr (if sErr sc = Some EOF then sc\<lparr>sErr := None\<rparr> else sc))"

text \<open>
  \<^verbatim>\<open>topLevelDecoder.Child\<close>: only the \<^verbatim>\<open>model\<close> element of the core namespace is
  offered a decoder.
\<close>

definition topLevelDecoder_Child :: "'d \<Rightarrow> XName \<Rightarrow> 'd option" where
  "topLevelDecoder_Child modelDecoder name =
     (if name = \<lparr>Space = Namespace, Local = attrModel\<rparr> then Some modelDecoder else None)"

section \<open>Reading the package\<close>

definition copyFile :: "packageFile \<Rightarrow> string \<times> error option" where
  "copyFile file =
     (case Open file of
        Inl err \<Rightarrow> ([], Some err)
      | Inr (bytes, readErr) \<Rightarrow> (bytes, readErr))"

text \<open>
  The loop of \<^verbatim>\<open>addAttachment\<close> over the attachments. \<^verbatim>\<open>strings.EqualFold\<close> of the
  Go standard library is the parameter \<open>EqualFold\<close>.
\<close>

fun hasPath :: "(string \<Rightarrow> string \<Rightarrow> bool) \<Rightarrow> Attachment list \<Rightarrow> string \<Rightarrow> bool" where
  "hasPath EqualFold [] name = False"
| "hasPath EqualFold (att # attachments) name =
     (if EqualFold (aPath att) name then True else hasPath EqualFold attachments name)"

definition addAttachment ::
  "(string \<Rightarrow> string \<Rightarrow> bool) \<Rightarrow> Attachment list \<Rightarrow> packageFile \<Rightarrow> Attachment list" where
  "addAttachment EqualFold attachments file =
     (if hasPath EqualFold attachments (Name file) then attachments
      else
        (case copyFile file of
           (buff, None) \<Rightarrow>
             attachments @ [\<lparr>aStream = buff, aPath = Name file, aContentType = ContentType file\<rparr>]
         | (buff, Some err) \<Rightarrow> attachments))"

definition newChildModel :: "'r ChildModel" where
  "newChildModel = \<lparr>cResources = [], cRelationships = []\<rparr>"

text \<open>One iteration of the loop of \<^verbatim>\<open>extractCoreAttachments\<close>.\<close>

definition extractRelationship ::
  "(string \<Rightarrow> string \<Rightarrow> bool) \<Rightarrow> packageFile \<Rightarrow> bool \<Rightarrow> Relationship
     \<Rightarrow> Decoder \<times> ('r, 'b) Model \<Rightarrow> Decoder \<times> ('r, 'b) Model" where
  "extractRelationship EqualFold modelFile isRoot rel dm =
     (let (d, model) = dm in
      case FindFileFromName modelFile (rPath rel) of
        None \<Rightarrow> (d, model)
      | Some file \<Rightarrow>
          if isRoot then
            (if rType rel = RelType3DModel then
               (d\<lparr>nonRootModels := nonRootModels d @ [file]\<rparr>,
                model\<lparr>mChilds := (mChilds model)(Name file \<mapsto> newChildModel)\<rparr>)
             else
               (d, model\<lparr>mAttachments := addAttachment EqualFold (mAttachments model) file,
                         mRelationships := mRelationships model @ [rel]\<rparr>))
          else if rType rel \<noteq> RelType3DModel then
            (case mChilds model (Name modelFile) of
               Some child \<Rightarrow>
                 (d, model\<lparr>mAttachments := addAttachment EqualFold (mAttachments model) file,
                           mChilds := (mChilds model)(Name modelFile \<mapsto>
                              child\<lparr>cRelationships := cRelationships child @ [rel]\<rparr>)\<rparr>)
             | None \<Rightarrow> (d, model))
          else (d, model))"

definition extractCoreAttachments ::
  "(string \<Rightarrow> string \<Rightarrow> bool) \<Rightarrow> packageFile \<Rightarrow> bool
     \<Rightarrow> Decoder \<times> ('r, 'b) Model \<Rightarrow> Decoder \<times> ('r, 'b) Model" where
  "extractCoreAttachments EqualFold modelFile isRoot dm =
     fold (extractRelationship EqualFold modelFile isRoot) (Relationships modelFile) dm"

text \<open>
  The branch of the loop of \<^verbatim>\<open>processOPC\<close> for a relationship that is not of the
  3D-model type: if it resolves to a part, the relationship and the part are recorded
  in the model.
\<close>

definition attachRootRelationship ::
  "(string \<Rightarrow> string \<Rightarrow> bool) \<Rightarrow> Decoder \<Rightarrow> Relationship \<Rightarrow> ('r, 'b) Model \<Rightarrow> ('r, 'b) Model" where
  "attachRootRelationship EqualFold d r model =
     (case pFindFileFromName (pkg d) (rPath r) of
        Some att \<Rightarrow>
          model\<lparr>mRootRelationships := mRootRelationships model @ [r],
                mAttachments := addAttachment EqualFold (mAttachments model) att\<rparr>
      | None \<Rightarrow> model)"

text \<open>
  The loop of \<^verbatim>\<open>processOPC\<close> over the relationships of the package, with the root
  file found so far. The decoder and the model are mutated in place, so they are
  returned on the error paths too.
\<close>

fun processRelationships ::
  "(string \<Rightarrow> string \<Rightarrow> bool) \<Rightarrow> Relationship list \<Rightarrow> packageFile option \<Rightarrow> Decoder
     \<Rightarrow> ('r, 'b) Model \<Rightarrow> (error + packageFile option) \<times> Decoder \<times> ('r, 'b) Model" where
  "processRelationships EqualFold [] rootFile d model = (Inr rootFile, d, model)"
| "processRelationships EqualFold (r # rs) rootFile d model =
     (if rType r = RelType3DModel then
        (case pFindFileFromName (pkg d) (rPath r) of
           None \<Rightarrow> (Inl (Err ''package root model points to an unexisting file''), d, model)
         | Some file \<Rightarrow>
             let dm1 = extractCoreAttachments EqualFold file True (d, model\<lparr>mPath := Name file\<rparr>);
                 dm2 = fold (\<lambda>f. extractCoreAttachments EqualFold f False)
                         (nonRootModels (fst dm1)) dm1
             in processRelationships EqualFold rs (Some file) (fst dm2) (snd dm2))
      else processRelationships EqualFold rs rootFile d (attachRootRelationship EqualFold d r model))"

definition processOPC ::
  "(string \<Rightarrow> string \<Rightarrow> bool) \<Rightarrow> Decoder \<Rightarrow> ('r, 'b) Model
     \<Rightarrow> (error + packageFile) \<times> Decoder \<times> ('r, 'b) Model" where
  "processOPC EqualFold d model =
     (case pOpen (pkg d) of
        Some err \<Rightarrow> (Inl err, d, model)
      | None \<Rightarrow>
          (case processRelationships EqualFold (pRelationships (pkg d)) None d model of
             (Inl err, d', model') \<Rightarrow> (Inl err, d', model')
           | (Inr None, d', model') \<Rightarrow> (Inl (Err ''package does not have root model''), d', model')
           | (Inr (Some rootFile), d', model') \<Rightarrow> (Inr rootFile, d', model')))"

section \<open>Decoding the parts\<close>

definition addChildModelFile ::
  "Decoder \<Rightarrow> ('x, 'r, 'b) Scanner \<Rightarrow> ('r, 'b) Model \<Rightarrow> panic + (Decoder \<times> ('r, 'b) Model)" where
  "addChildModelFile d p model =
     (case mChilds model (sModelPath p) of
        None \<Rightarrow> Inl NilDereference
      | Some child \<Rightarrow>
          Inr (d\<lparr>Warnings := Warnings d @ sWarnings p\<rparr>,
               model\<lparr>mChilds := (mChilds model)(sModelPath p \<mapsto>
                  child\<lparr>cResources := sResources p\<rparr>)\<rparr>))"

definition addModelFile ::
  "Decoder \<Rightarrow> ('x, 'r, 'b) Scanner \<Rightarrow> ('r, 'b) Model \<Rightarrow> Decoder \<times> ('r, 'b) Model" where
  "addModelFile d p model =
     (d\<lparr>Warnings := Warnings d @ sWarnings p\<rparr>,
      model\<lparr>mBuildItems := mBuildItems model @ sBuildItems p, mResources := sResources p\<rparr>)"

definition readChildModel ::
  "('d, 'x, 'r, 'b) NodeDecoder \<Rightarrow> Context \<Rightarrow> nat \<Rightarrow> Decoder \<Rightarrow> ('r, 'b) Model
     \<Rightarrow> panic + (('x, 'r, 'b) Scanner option \<times> error option)" where
  "readChildModel H ctx i d model =
     (let attachment = nonRootModels d ! i in
      case Open attachment of
        Inl err \<Rightarrow> Inr (None, Some err)
      | Inr file \<Rightarrow>
          (case decodeModelFile H ctx (tokenReader d file) model (Name attachment) False (Strict d) of
             Inl e \<Rightarrow> Inl e
           | Inr sc \<Rightarrow> Inr (Some sc, sErr sc)))"

text \<open>
  \<^verbatim>\<open>processNonRootModels\<close> starts one goroutine per auxiliary part and waits for all
  of them. The goroutines are ordered here by a schedule, the order in which they
  complete: the tail of each goroutine (the check of the context, the assignment to
  \<^verbatim>\<open>err\<close>, \<^verbatim>\<open>cancel\<close> and \<^verbatim>\<open>files.Store\<close>) is one step. \<open>tErr\<close> is the variable
  \<^verbatim>\<open>err\<close>, \<open>cancelled\<close> tells whether \<^verbatim>\<open>cancel\<close> was called, \<open>files\<close> is the
  \<^verbatim>\<open>sync.Map\<close> (a stored nil scanner is \<open>None\<close>), \<open>started\<close> the calls of
  \<^verbatim>\<open>readChildModel\<close>.
\<close>

record ('x, 'r, 'b) tasks =
  tErr :: "error option"
  cancelled :: bool
  files :: "(nat \<times> ('x, 'r, 'b) Scanner option) list"
  started :: "PartEvent list"

definition tasks0 :: "('x, 'r, 'b) tasks" where
  "tasks0 = \<lparr>tErr = None, cancelled = False, files = [], started = []\<rparr>"

definition Store :: "nat \<Rightarrow> 'a \<Rightarrow> (nat \<times> 'a) list \<Rightarrow> (nat \<times> 'a) list" where
  "Store k v m = filter (\<lambda>(k', _). k' \<noteq> k) m @ [(k, v)]"

definition runTask ::
  "('d, 'x, 'r, 'b) NodeDecoder \<Rightarrow> Context \<Rightarrow> Decoder \<Rightarrow> ('r, 'b) Model \<Rightarrow> nat \<Rightarrow> ('x, 'r, 'b) tasks
     \<Rightarrow> panic + ('x, 'r, 'b) tasks" where
  "runTask H ctx d model i ts =
     (if length (nonRootModels d) \<le> i then Inr ts
      else
        let ctx' = (case ctx of Some e \<Rightarrow> Some e
                    | None \<Rightarrow> if cancelled ts then Some Canceled else None)
        in case readChildModel H ctx' i d model of
             Inl e \<Rightarrow> Inl e
           | Inr (f, err1) \<Rightarrow>
               let ts1 = ts\<lparr>started := started ts @ [ReadChildModel i]\<rparr> in
               if ctx' \<noteq> None then Inr ts1
               else
                 let ts2 = (if err1 \<noteq> None then ts1\<lparr>tErr := err1, cancelled := True\<rparr> else ts1)
                 in Inr (ts2\<lparr>files := Store i f (files ts2)\<rparr>))"

fun runTasks ::
  "('d, 'x, 'r, 'b) NodeDecoder \<Rightarrow> Context \<Rightarrow> Decoder \<Rightarrow> ('r, 'b) Model \<Rightarrow> nat list
     \<Rightarrow> ('x, 'r, 'b) tasks \<Rightarrow> panic + ('x, 'r, 'b) tasks" where
  "runTasks H ctx d model [] ts = Inr ts"
| "runTasks H ctx d model (i # sched) ts =
     (case runTask H ctx d model i ts of
        Inl e \<Rightarrow> Inl e
      | Inr ts' \<Rightarrow> runTasks H ctx d model sched ts')"

text \<open>The merge loop over the sorted indices.\<close>

fun mergeFiles ::
  "(nat \<times> ('x, 'r, 'b) Scanner option) list \<Rightarrow> nat list \<Rightarrow> Decoder \<Rightarrow> ('r, 'b) Model
     \<Rightarrow> panic + (Decoder \<times> ('r, 'b) Model)" where
  "mergeFiles fs [] d model = Inr (d, model)"
| "mergeFiles fs (index # indices) d model =
     (case map_of fs index of
        Some (Some f) \<Rightarrow>
          (case addChildModelFile d f model of
             Inl e \<Rightarrow> Inl e
           | Inr (d', model') \<Rightarrow> mergeFiles fs indices d' model')
      | Some None \<Rightarrow> Inl NilDereference
      | None \<Rightarrow> Inl NilDereference)"

definition processNonRootModels ::
  "('d, 'x, 'r, 'b) NodeDecoder \<Rightarrow> nat list \<Rightarrow> Context \<Rightarrow> Decoder \<Rightarrow> ('r, 'b) Model
     \<Rightarrow> panic + (error option \<times> Decoder \<times> ('r, 'b) Model)" where
  "processNonRootModels H sched ctx d model =
     (case runTasks H ctx d model sched tasks0 of
        Inl e \<Rightarrow> Inl e
      | Inr ts \<Rightarrow>
          let d1 = d\<lparr>decoded := decoded d @ started ts\<rparr> in
          (case tErr ts of
             Some err \<Rightarrow> Inr (Some err, d1, model)
           | None \<Rightarrow>
               (case mergeFiles (files ts) (sort (map fst (files ts))) d1 model of
                  Inl e \<Rightarrow> Inl e
                | Inr (d2, model2) \<Rightarrow> Inr (None, d2, model2))))"

definition processRootModel ::
  "('d, 'x, 'r, 'b) NodeDecoder \<Rightarrow> Context \<Rightarrow> Decoder \<Rightarrow> packageFile \<Rightarrow> ('r, 'b) Model
     \<Rightarrow> panic + (error option \<times> Decoder \<times> ('r, 'b) Model)" where
  "processRootModel H ctx d rootFile model =
     (let d0 = d\<lparr>decoded := decoded d @ [ProcessRootModel]\<rparr> in
      case Open rootFile of
        Inl err \<Rightarrow> Inr (Some err, d0, model)
      | Inr f \<Rightarrow>
          (case decodeModelFile H ctx (tokenReader d f) model (Name rootFile) True (Strict d) of
             Inl e \<Rightarrow> Inl e
           | Inr sc \<Rightarrow>
               let sc' = (case ctx of Some e \<Rightarrow> sc\<lparr>sErr := Some e\<rparr> | None \<Rightarrow> sc);
                   (d1, model1) = addModelFile d0 sc' model
               in Inr (sErr sc', d1, model1)))"

definition DecodeContext ::
  "('d, 'x, 'r, 'b) NodeDecoder \<Rightarrow> (string \<Rightarrow> string \<Rightarrow> bool) \<Rightarrow> nat list \<Rightarrow> Context \<Rightarrow> Decoder
     \<Rightarrow> ('r, 'b) Model \<Rightarrow> panic + (error option \<times> Decoder \<times> ('r, 'b) Model)" where
  "DecodeContext H EqualFold sched ctx d model =
     (case processOPC EqualFold d model of
        (Inl err, d1, model1) \<Rightarrow> Inr (Some err, d1, model1)
      | (Inr rootFile, d1, model1) \<Rightarrow>
          (case processNonRootModels H sched ctx d1 model1 of
             Inl e \<Rightarrow> Inl e
           | Inr (Some err, d2, model2) \<Rightarrow> Inr (Some err, d2, model2)
           | Inr (None, d2, model2) \<Rightarrow> processRootModel H ctx d2 rootFile model2))"

definition fakePackageFile :: "string \<Rightarrow> packageFile" where
  "fakePackageFile data =
     PackageFile DefaultModelPath ContentType3DModel (\<lambda>_. None) [] (Inr (data, None))"

definition UnmarshalModel ::
  "('d, 'x, 'r, 'b) NodeDecoder \<Rightarrow> Decoder \<Rightarrow> string \<Rightarrow> ('r, 'b) Model
     \<Rightarrow> panic + (error option \<times> Decoder \<times> ('r, 'b) Model)" where
  "UnmarshalModel H d data model = processRootModel H None d (fakePackageFile data) model"

section \<open>Vocabulary of the statements and example inputs\<close>

text \<open>
  What one attribute adds to the collected errors of the triangle decoder and of the
  vertex decoder.
\<close>

definition triangleAttrError :: "Attr \<Rightarrow> FieldError list" where
  "triangleAttrError a =
     (if snd (ParseUint (Value a) 24) \<noteq> None
      then [ParseAttrError (Local (AName a)) (Local (AName a) \<notin> {''pid'', ''p1'', ''p2'', ''p3''})]
      else [])"


definition noTypes :: "(unit, unit) reflect" where
  "noTypes = \<lparr>TypeOf = (\<lambda>_. ()), IsInterface = (\<lambda>_. False),
     ImplementsMarshalerAttr = (\<lambda>_. False), ImplementsMarshaler = (\<lambda>_. False),
     AssignableTo = (\<lambda>_ _. False)\<rparr>"

text \<open>
  The attributes of local name \<open>n\<close> that are in no namespace, as the attributes of
  the core specification are.
\<close>

definition coreAttrs :: "string \<Rightarrow> Attr list \<Rightarrow> Attr list" where
  "coreAttrs n attrs = filter (\<lambda>a. Space (AName a) = [] \<and> Local (AName a) = n) attrs"

text \<open>
  A triangle with its three vertex indices and, from an extension namespace, an
  attribute whose local name is \<open>p1\<close>; and a triangle without \<open>v1\<close> that carries
  an attribute of an extension namespace whose local name is \<open>v1\<close>.
\<close>

definition foreignP1Attrs :: "Attr list" where
  "foreignP1Attrs =
     [\<lparr>AName = \<lparr>Space = [], Local = ''v1''\<rparr>, Value = ''0''\<rparr>,
      \<lparr>AName = \<lparr>Space = [], Local = ''v2''\<rparr>, Value = ''1''\<rparr>,
      \<lparr>AName = \<lparr>Space = [], Local = ''v3''\<rparr>, Value = ''2''\<rparr>,
      \<lparr>AName = \<lparr>Space = ''urn:example:extension'', Local = ''p1''\<rparr>, Value = ''7''\<rparr>]"

definition foreignV1Attrs :: "Attr list" where
  "foreignV1Attrs =
     [\<lparr>AName = \<lparr>Space = ''urn:example:extension'', Local = ''v1''\<rparr>, Value = ''4''\<rparr>,
      \<lparr>AName = \<lparr>Space = [], Local = ''v2''\<rparr>, Value = ''1''\<rparr>,
      \<lparr>AName = \<lparr>Space = [], Local = ''v3''\<rparr>, Value = ''2''\<rparr>]"

definition exampleTriangleAttrs :: "Attr list" where
  "exampleTriangleAttrs =
     [\<lparr>AName = \<lparr>Space = [], Local = ''v1''\<rparr>, Value = ''0''\<rparr>,
      \<lparr>AName = \<lparr>Space = [], Local = ''v2''\<rparr>, Value = ''1''\<rparr>,
      \<lparr>AName = \<lparr>Space = [], Local = ''v3''\<rparr>, Value = ''2''\<rparr>,
      \<lparr>AName = \<lparr>Space = [], Local = ''p1''\<rparr>, Value = ''9''\<rparr>]"


text \<open>
  No attachment is followed by one whose path folds to the same string: the test of
  \<^verbatim>\<open>addAttachment\<close>, with an existing entry on the left and a later one on the right,
  fails for every pair of entries.
\<close>

fun distinctFold :: "(string \<Rightarrow> string \<Rightarrow> bool) \<Rightarrow> Attachment list \<Rightarrow> bool" where
  "distinctFold EqualFold [] = True"
| "distinctFold EqualFold (att # attachments) =
     ((\<forall>later \<in> set attachments. \<not> EqualFold (aPath att) (aPath later)) \<and>
      distinctFold EqualFold attachments)"

text \<open>\<^verbatim>\<open>strings.EqualFold\<close> on ASCII strings, for the examples.\<close>

definition lowerCode :: "char \<Rightarrow> nat" where
  "lowerCode c = (if 65 \<le> (of_char c :: nat) \<and> (of_char c :: nat) \<le> 90 then of_char c + 32
                  else of_char c)"

definition asciiEqualFold :: "string \<Rightarrow> string \<Rightarrow> bool" where
  "asciiEqualFold a b = (map lowerCode a = map lowerCode b)"

text \<open>
  Merging a list of scanners in the order of the list: what the merge loop of
  \<^verbatim>\<open>processNonRootModels\<close> is compared with.
\<close>

fun mergeAscending ::
  "('x, 'r, 'b) Scanner list \<Rightarrow> Decoder \<Rightarrow> ('r, 'b) Model \<Rightarrow> panic + (Decoder \<times> ('r, 'b) Model)" where
  "mergeAscending [] d model = Inr (d, model)"
| "mergeAscending (p # ps) d model =
     (case addChildModelFile d p model of
        Inl e \<Rightarrow> Inl e
      | Inr (d', model') \<Rightarrow> mergeAscending ps d' model')"

text \<open>
  The nesting depth after a run of tokens that starts at depth \<open>k\<close>; \<open>None\<close> when an
  end element closes more than the run has opened. A run of complete elements starts
  and ends at depth 0.
\<close>

fun nesting :: "Items \<Rightarrow> nat \<Rightarrow> nat option" where
  "nesting [] k = Some k"
| "nesting ((StartElement n a, off) # rest) k = nesting rest (Suc k)"
| "nesting ((EndElement n, off) # rest) k =
     (case k of 0 \<Rightarrow> None | Suc j \<Rightarrow> nesting rest j)"
| "nesting ((CharData c, off) # rest) k = nesting rest k"
| "nesting ((OtherToken, off) # rest) k = nesting rest k"

text \<open>Projections of the outcome of a decode: what was returned and what was left behind.\<close>

definition returned ::
  "panic + (error option \<times> Decoder \<times> ('r, 'b) Model) \<Rightarrow> panic + error option" where
  "returned = map_sum id fst"

definition warningsAfter ::
  "panic + (error option \<times> Decoder \<times> ('r, 'b) Model) \<Rightarrow> panic + error list" where
  "warningsAfter = map_sum id (Warnings \<circ> fst \<circ> snd)"

definition decodedAfter ::
  "panic + (error option \<times> Decoder \<times> ('r, 'b) Model) \<Rightarrow> panic + PartEvent list" where
  "decodedAfter = map_sum id (decoded \<circ> fst \<circ> snd)"

definition attachmentsAfter ::
  "panic + (error option \<times> Decoder \<times> ('r, 'b) Model) \<Rightarrow> panic + Attachment list" where
  "attachmentsAfter = map_sum id (mAttachments \<circ> snd \<circ> snd)"

subsection \<open>An example package\<close>

text \<open>
  Modelled from the spec: element decoders for the examples, since those of this
  version of the reader are not in the sources at hand. The top level offers a decoder
  to the \<^verbatim>\<open>model\<close> element only (\<^verbatim>\<open>topLevelDecoder.Child\<close>); the model decoder
  offers one to every element of the core namespace and none to an element of any
  other namespace; an element decoder collects a warning when an attribute is not a
  32-bit number and records its element as a resource when the element ends.
\<close>

datatype exDecoder = ExTopLevel | ExModel | ExElement

definition exampleStart ::
  "exDecoder \<Rightarrow> Attr list \<Rightarrow> (unit, string, string) Scanner \<Rightarrow> (unit, string, string) Scanner" where
  "exampleStart dec attrs sc =
     (if dec = ExElement \<and> list_ex (\<lambda>a. snd (ParseUint (Value a) 32) \<noteq> None) attrs
      then sc\<lparr>sWarnings := sWarnings sc @ [Err (sModelPath sc @ '': invalid '' @ sElement sc)]\<rparr>
      else sc)"

definition exampleDecoder :: "(exDecoder, unit, string, string) NodeDecoder" where
  "exampleDecoder =
     \<lparr>Child = (\<lambda>dec name sc.
         case dec of
           ExTopLevel \<Rightarrow> topLevelDecoder_Child ExModel name
         | ExModel \<Rightarrow> if Space name = Namespace then Some ExElement else None
         | ExElement \<Rightarrow> None),
      Start = exampleStart,
      Text = (\<lambda>dec chars sc. sc),
      End = (\<lambda>dec sc. if dec = ExElement then sc\<lparr>sResources := sResources sc @ [sElement sc]\<rparr>
                       else sc),
      TopLevel = (\<lambda>isRoot model. ExTopLevel),
      Objects0 = ()\<rparr>"

definition coreName :: "string \<Rightarrow> XName" where
  "coreName l = \<lparr>Space = Namespace, Local = l\<rparr>"

definition extName :: "string \<Rightarrow> XName" where
  "extName l = \<lparr>Space = ''urn:example:extension'', Local = l\<rparr>"

text \<open>A model document: an object with a malformed \<^verbatim>\<open>id\<close>, then a build item.\<close>

definition modelContent :: Items where
  "modelContent =
     [(StartElement (coreName ''object'') [\<lparr>AName = \<lparr>Space = [], Local = ''id''\<rparr>, Value = ''x''\<rparr>], 20),
      (EndElement (coreName ''object''), 30),
      (StartElement (coreName ''item'') [], 40),
      (EndElement (coreName ''item''), 50),
      (EndElement (coreName ''model''), 60)]"

definition exampleDocument :: Items where
  "exampleDocument = (StartElement (coreName ''model'') [], 10) # modelContent"

text \<open>The content of an element of an unknown namespace, two more levels deep.\<close>

definition extensionContent :: Items where
  "extensionContent =
     [(StartElement (extName ''b'') [], 12),
      (StartElement (extName ''c'') [\<lparr>AName = \<lparr>Space = [], Local = ''id''\<rparr>, Value = ''x''\<rparr>], 13),
      (CharData ''text'', 14),
      (EndElement (extName ''c''), 15),
      (EndElement (extName ''b''), 16)]"

definition exampleTokenReader :: "content \<Rightarrow> XMLDecoder" where
  "exampleTokenReader c = \<lparr>items = exampleDocument, endErr = EOF\<rparr>"

definition modelPart :: "string \<Rightarrow> (string \<Rightarrow> packageFile option) \<Rightarrow> Relationship list \<Rightarrow> packageFile" where
  "modelPart name lookup rels = PackageFile name ContentType3DModel lookup rels (Inr (''<model/>'', None))"

definition imagePart :: "string \<Rightarrow> packageFile" where
  "imagePart name = PackageFile name ''image/png'' (\<lambda>_. None) [] (Inr (''PNG'', None))"

definition otherModel :: packageFile where
  "otherModel = modelPart ''/3D/other.model'' (\<lambda>_. None) []"

definition rootModel :: packageFile where
  "rootModel =
     modelPart ''/3D/3dmodel.model''
       (\<lambda>n. if n = ''/3D/other.model'' then Some otherModel
            else if n = ''/3D/Texture.png'' then Some (imagePart ''/3D/Texture.png'')
            else None)
       [\<lparr>rPath = ''/3D/other.model'', rType = RelType3DModel\<rparr>,
        \<lparr>rPath = ''/3D/Texture.png'', rType = ''texture''\<rparr>]"

definition thumbnailRel :: Relationship where
  "thumbnailRel = \<lparr>rPath = ''/Thumb.png'', rType = ''thumbnail''\<rparr>"

definition examplePackage :: packageReader where
  "examplePackage =
     \<lparr>pOpen = None,
      pFindFileFromName =
        (\<lambda>n. if n = ''/3D/3dmodel.model'' then Some rootModel
             else if n = ''/Thumb.png'' then Some (imagePart ''/Thumb.png'')
             else None),
      pRelationships = [thumbnailRel, \<lparr>rPath = ''/3D/3dmodel.model'', rType = RelType3DModel\<rparr>]\<rparr>"

text \<open>The same container without the relationship to a root model.\<close>

definition rootlessPackage :: packageReader where
  "rootlessPackage = examplePackage\<lparr>pRelationships := [thumbnailRel]\<rparr>"

text \<open>A container whose relationships point to parts that it does not hold.\<close>

definition danglingPackage :: packageReader where
  "danglingPackage =
     \<lparr>pOpen = None, pFindFileFromName = (\<lambda>_. None),
      pRelationships = [thumbnailRel, \<lparr>rPath = ''/3D/3dmodel.model'', rType = RelType3DModel\<rparr>]\<rparr>"

text \<open>A container whose root model refers to an auxiliary part that cannot be opened.\<close>

definition unreadableModel :: packageFile where
  "unreadableModel =
     PackageFile ''/3D/other.model'' ContentType3DModel (\<lambda>_. None) []
       (Inl (Err ''cannot open part''))"

definition brokenPackage :: packageReader where
  "brokenPackage =
     \<lparr>pOpen = None,
      pFindFileFromName =
        (\<lambda>n. if n = ''/3D/3dmodel.model''
             then Some (modelPart ''/3D/3dmodel.model''
                          (\<lambda>m. if m = ''/3D/other.model'' then Some unreadableModel else None)
                          [\<lparr>rPath = ''/3D/other.model'', rType = RelType3DModel\<rparr>])
             else None),
      pRelationships = [\<lparr>rPath = ''/3D/3dmodel.model'', rType = RelType3DModel\<rparr>]\<rparr>"

definition exampleDecoding :: "packageReader \<Rightarrow> Decoder" where
  "exampleDecoding package =
     \<lparr>Strict = True, Warnings = [], pkg = package, tokenReader = exampleTokenReader,
      nonRootModels = [], decoded = []\<rparr>"

definition emptyModel :: "(string, string) Model" where
  "emptyModel =
     \<lparr>mPath = [], mSpecs = [], mChilds = Map.empty, mAttachments = [], mRelationships = [],
      mRootRelationships = [], mResources = [], mBuildItems = []\<rparr>"

text \<open>A decoder that has discovered two auxiliary parts, and the model with their places.\<close>

definition twoParts :: Decoder where
  "twoParts = (exampleDecoding examplePackage)
     \<lparr>nonRootModels := [modelPart ''/3D/a.model'' (\<lambda>_. None) [],
                        modelPart ''/3D/b.model'' (\<lambda>_. None) []]\<rparr>"

definition twoPartsModel :: "(string, string) Model" where
  "twoPartsModel =
     emptyModel\<lparr>mChilds := [''/3D/a.model'' \<mapsto> newChildModel, ''/3D/b.model'' \<mapsto> newChildModel]\<rparr>"

text \<open>What scanning the example document as the auxiliary part \<open>path\<close> gives.\<close>

definition scannedPart :: "string \<Rightarrow> (unit, string, string) Scanner" where
  "scannedPart path =
     \<lparr>extensionDecoder = [], sIsRoot = False, sStrict = True, sModelPath = path,
      sElement = ''model'', sErr = None,
      sWarnings = [Err (path @ '': invalid object'')],
      sResources = [''object'', ''item''], sBuildItems = [], sObjects = ()\<rparr>"

text \<open>The loop variables while the \<^verbatim>\<open>model\<close> element of the root part is open.\<close>

definition insideModel :: "(exDecoder, unit, string, string) loopVars" where
  "insideModel =
     \<lparr>currentDecoder = ExModel, currentName = coreName ''model'',
      state = [ExTopLevel], names = [\<lparr>Space = [], Local = []\<rparr>],
      nextBytesCheck = checkEveryBytes,
      scanner = \<lparr>extensionDecoder = [], sIsRoot = True, sStrict = True,
        sModelPath = DefaultModelPath, sElement = ''model'', sErr = None, sWarnings = [],
        sResources = [], sBuildItems = [], sObjects = ()\<rparr>\<rparr>"


section \<open>Properties of the element decoders\<close>

lemma attrsNamed_Nil: "attrsNamed n [] = []"
  by (simp add: attrsNamed_def)

lemma attrsNamed_Cons:
  "attrsNamed n (a # as) = (if Local (AName a) = n then a # attrsNamed n as else attrsNamed n as)"
  by (simp add: attrsNamed_def)

text \<open>
  A loop variable that every attribute of local name \<open>n\<close> overwrites, and no other
  attribute touches, ends up holding what the last such attribute wrote.
\<close>

lemma fold_last_named:
  assumes "\<And>a s. g (f a s) = (if Local (AName a) = n then v a else g s)"
  shows "g (fold f attrs s) =
           (if attrsNamed n attrs = [] then g s else v (last (attrsNamed n attrs)))"
  by (induction attrs arbitrary: s) (simp_all add: attrsNamed_Cons attrsNamed_Nil assms)

lemma fold_flag_named:
  assumes "\<And>a s. h (f a s) = (Local (AName a) = n \<or> h s)"
  shows "h (fold f attrs s) = (attrsNamed n attrs \<noteq> [] \<or> h s)"
  by (induction attrs arbitrary: s) (auto simp add: attrsNamed_Cons attrsNamed_Nil assms)

lemma fold_appended:
  assumes "\<And>a s. g (f a s) = g s @ e a"
  shows "g (fold f attrs s) = g s @ concat (map e attrs)"
  by (induction attrs arbitrary: s) (simp_all add: assms)

lemma triangleAttr_fields:
  "p1 (triangleAttr a s) = (if Local (AName a) = ''p1'' then parsed24 a else p1 s)"
  "p2 (triangleAttr a s) = (if Local (AName a) = ''p2'' then parsed24 a else p2 s)"
  "p3 (triangleAttr a s) = (if Local (AName a) = ''p3'' then parsed24 a else p3 s)"
  "pid (triangleAttr a s) = (if Local (AName a) = ''pid'' then parsed24 a else pid s)"
  "V1 (t (triangleAttr a s)) = (if Local (AName a) = ''v1'' then ToUint24 (parsed24 a) else V1 (t s))"
  "V2 (t (triangleAttr a s)) = (if Local (AName a) = ''v2'' then ToUint24 (parsed24 a) else V2 (t s))"
  "V3 (t (triangleAttr a s)) = (if Local (AName a) = ''v3'' then ToUint24 (parsed24 a) else V3 (t s))"
  by (simp_all add: triangleAttr_def parsed24_def Let_def split: prod.split)

lemma triangleAttr_flags:
  "hasP1 (triangleAttr a s) = (Local (AName a) = ''p1'' \<or> hasP1 s)"
  "hasP2 (triangleAttr a s) = (Local (AName a) = ''p2'' \<or> hasP2 s)"
  "hasP3 (triangleAttr a s) = (Local (AName a) = ''p3'' \<or> hasP3 s)"
  "hasPID (triangleAttr a s) = (Local (AName a) = ''pid'' \<or> hasPID s)"
  by (simp_all add: triangleAttr_def Let_def split: prod.split)

lemma triangleAttr_errs: "errs (triangleAttr a s) = errs s @ triangleAttrError a"
  by (simp add: triangleAttr_def triangleAttrError_def Let_def split: prod.split)

lemmas triangle_loop =
  fold_last_named [of p1 triangleAttr, OF triangleAttr_fields(1)]
  fold_last_named [of p2 triangleAttr, OF triangleAttr_fields(2)]
  fold_last_named [of p3 triangleAttr, OF triangleAttr_fields(3)]
  fold_last_named [of pid triangleAttr, OF triangleAttr_fields(4)]
  fold_last_named [of "\<lambda>s. V1 (t s)" triangleAttr, OF triangleAttr_fields(5)]
  fold_last_named [of "\<lambda>s. V2 (t s)" triangleAttr, OF triangleAttr_fields(6)]
  fold_last_named [of "\<lambda>s. V3 (t s)" triangleAttr, OF triangleAttr_fields(7)]
  fold_flag_named [of hasP1 triangleAttr, OF triangleAttr_flags(1)]
  fold_flag_named [of hasP2 triangleAttr, OF triangleAttr_flags(2)]
  fold_flag_named [of hasP3 triangleAttr, OF triangleAttr_flags(3)]
  fold_flag_named [of hasPID triangleAttr, OF triangleAttr_flags(4)]
  fold_appended [of errs triangleAttr, OF triangleAttr_errs]

lemma triangleVars0_fields:
  "p1 triangleVars0 = 0" "p2 triangleVars0 = 0" "p3 triangleVars0 = 0" "pid triangleVars0 = 0"
  "hasP1 triangleVars0 = False" "hasP2 triangleVars0 = False" "hasP3 triangleVars0 = False"
  "hasPID triangleVars0 = False" "errs triangleVars0 = []"
  "V1 (t triangleVars0) = 0" "V2 (t triangleVars0) = 0" "V3 (t triangleVars0) = 0"
  by (simp_all add: triangleVars0_def zeroTriangle_def)

text \<open>
  Triangle property defaulting, by local name. The switch of
  \<^verbatim>\<open>triangleDecoder.Start\<close> looks at the local name of an attribute only; when a
  name occurs more than once the last occurrence counts. The decoder appends one
  triangle whose \<open>p1\<close> is the parsed value of the last attribute of local name
  \<open>p1\<close>, or the object's default property index when there is none; whose \<open>p2\<close>
  and \<open>p3\<close> are their parsed values, or the resolved \<open>p1\<close>; and whose \<open>pid\<close> is its
  parsed value, or the object's default property id.
\<close>

lemma triangle_defaulting_by_local_name:
  "\<exists>tr. snd (triangleDecoder_Start d attrs mesh) = mesh\<lparr>Triangles := Triangles mesh @ [tr]\<rparr> \<and>
     P1 tr = (if attrsNamed ''p1'' attrs = [] then defaultPropertyIndex d
              else parsed24 (last (attrsNamed ''p1'' attrs))) \<and>
     P2 tr = (if attrsNamed ''p2'' attrs = [] then P1 tr
              else parsed24 (last (attrsNamed ''p2'' attrs))) \<and>
     P3 tr = (if attrsNamed ''p3'' attrs = [] then P1 tr
              else parsed24 (last (attrsNamed ''p3'' attrs))) \<and>
     PID tr = (if attrsNamed ''pid'' attrs = [] then defaultPropertyID d
               else parsed24 (last (attrsNamed ''pid'' attrs)))"
proof -
  define s where "s = fold triangleAttr attrs triangleVars0"
  define q1 where "q1 = applyDefault (p1 s) (defaultPropertyIndex d) (hasP1 s)"
  define tr where "tr = (t s)\<lparr>PID := applyDefault (pid s) (defaultPropertyID d) (hasPID s),
    P1 := q1, P2 := applyDefault (p2 s) q1 (hasP2 s), P3 := applyDefault (p3 s) q1 (hasP3 s)\<rparr>"
  have appended: "snd (triangleDecoder_Start d attrs mesh) = mesh\<lparr>Triangles := Triangles mesh @ [tr]\<rparr>"
    by (simp add: triangleDecoder_Start_def Let_def tr_def q1_def s_def)
  have first: "P1 tr = (if attrsNamed ''p1'' attrs = [] then defaultPropertyIndex d
                        else parsed24 (last (attrsNamed ''p1'' attrs)))"
    by (simp add: tr_def q1_def s_def applyDefault_def triangle_loop triangleVars0_fields)
  have "P1 tr = q1"
    by (simp add: tr_def)
  then have second: "P2 tr = (if attrsNamed ''p2'' attrs = [] then P1 tr
                              else parsed24 (last (attrsNamed ''p2'' attrs)))"
    and third: "P3 tr = (if attrsNamed ''p3'' attrs = [] then P1 tr
                         else parsed24 (last (attrsNamed ''p3'' attrs)))"
    by (simp_all add: tr_def s_def applyDefault_def triangle_loop triangleVars0_fields)
  have group: "PID tr = (if attrsNamed ''pid'' attrs = [] then defaultPropertyID d
                         else parsed24 (last (attrsNamed ''pid'' attrs)))"
    by (simp add: tr_def s_def applyDefault_def triangle_loop triangleVars0_fields)
  from appended first second third group show ?thesis
    by blast
qed

text \<open>
  The example of the specification: object defaults \<open>pid = 5\<close>, \<open>pindex = 2\<close> and a
  triangle that gives \<open>v1\<close>, \<open>v2\<close>, \<open>v3\<close> and \<open>p1 = 9\<close> only.
\<close>

lemma ParseUint_9: "ParseUint ''9'' 24 = (9, None)"
  by (simp add: ParseUint_def cutoff10_def)

lemma triangle_defaulting_specification_example:
  "\<exists>tr. snd (triangleDecoder_Start \<lparr>defaultPropertyIndex = 2, defaultPropertyID = 5\<rparr>
             exampleTriangleAttrs \<lparr>Vertices = [], Triangles = []\<rparr>)
          = \<lparr>Vertices = [], Triangles = [tr]\<rparr> \<and>
        P1 tr = 9 \<and> P2 tr = 9 \<and> P3 tr = 9 \<and> PID tr = 5"
  using triangle_defaulting_by_local_name
    [of "\<lparr>defaultPropertyIndex = 2, defaultPropertyID = 5\<rparr>" exampleTriangleAttrs
        "\<lparr>Vertices = [], Triangles = []\<rparr>"]
  by (auto simp add: exampleTriangleAttrs_def attrsNamed_def parsed24_def ParseUint_9)

lemma ParseUint_small:
  "ParseUint ''0'' 24 = (0, None)" "ParseUint ''1'' 24 = (1, None)"
  "ParseUint ''2'' 24 = (2, None)" "ParseUint ''4'' 24 = (4, None)"
  "ParseUint ''7'' 24 = (7, None)"
  by (simp_all add: ParseUint_def cutoff10_def)

text \<open>
  C2. If the \<open>p1\<close> attribute of a triangle is absent, the decoded \<open>p1\<close> is to be the
  object's default property index, and an absent \<open>p2\<close> or \<open>p3\<close> the resolved \<open>p1\<close>.
  The decoder breaks this for a triangle that has no \<open>p1\<close>, \<open>p2\<close> or \<open>p3\<close> of its
  own but carries an attribute of another namespace whose local name is \<open>p1\<close>: with
  the object defaults \<open>pid = 5\<close>, \<open>pindex = 2\<close> it decodes \<open>p1 = p2 = p3 = 7\<close>,
  the value of the foreign attribute, where the defaults call for \<open>2\<close>.
\<close>

theorem triangle_foreign_p1_read_as_p1:
  "coreAttrs ''p1'' foreignP1Attrs = [] \<and>
   coreAttrs ''p2'' foreignP1Attrs = [] \<and>
   coreAttrs ''p3'' foreignP1Attrs = [] \<and>
   triangleDecoder_Start \<lparr>defaultPropertyIndex = 2, defaultPropertyID = 5\<rparr> foreignP1Attrs
       \<lparr>Vertices = [], Triangles = []\<rparr>
     = (None, \<lparr>Vertices = [],
               Triangles = [\<lparr>V1 = 0, V2 = 1, V3 = 2, PID = 5, P1 = 7, P2 = 7, P3 = 7\<rparr>]\<rparr>)"
  by (simp add: coreAttrs_def foreignP1Attrs_def triangleDecoder_Start_def triangleAttr_def
      triangleVars0_def zeroTriangle_def applyDefault_def ToUint24_def Let_def ParseUint_small)

text \<open>
  Missing vertex indices, by local name. A triangle element appends exactly one
  triangle; a vertex index is zero when no attribute has its local name; and every
  error the decoder reports is a parse error of an attribute that is present with a
  value \<^verbatim>\<open>ParseUint\<close> rejects, so nothing is reported for absent attributes.
\<close>

lemma triangle_vertex_index_by_local_name:
  "\<exists>tr. snd (triangleDecoder_Start d attrs mesh) = mesh\<lparr>Triangles := Triangles mesh @ [tr]\<rparr> \<and>
     (attrsNamed ''v1'' attrs = [] \<longrightarrow> V1 tr = 0) \<and>
     (attrsNamed ''v2'' attrs = [] \<longrightarrow> V2 tr = 0) \<and>
     (attrsNamed ''v3'' attrs = [] \<longrightarrow> V3 tr = 0) \<and>
     (\<forall>fe \<in> set (reported (fst (triangleDecoder_Start d attrs mesh))).
        \<exists>a \<in> set attrs. \<exists>r. fe = ParseAttrError (Local (AName a)) r \<and>
          snd (ParseUint (Value a) 24) \<noteq> None)"
proof -
  define s where "s = fold triangleAttr attrs triangleVars0"
  define q1 where "q1 = applyDefault (p1 s) (defaultPropertyIndex d) (hasP1 s)"
  define tr where "tr = (t s)\<lparr>PID := applyDefault (pid s) (defaultPropertyID d) (hasPID s),
    P1 := q1, P2 := applyDefault (p2 s) q1 (hasP2 s), P3 := applyDefault (p3 s) q1 (hasP3 s)\<rparr>"
  have appended: "snd (triangleDecoder_Start d attrs mesh) = mesh\<lparr>Triangles := Triangles mesh @ [tr]\<rparr>"
    by (simp add: triangleDecoder_Start_def Let_def tr_def q1_def s_def)
  have vertices: "attrsNamed ''v1'' attrs = [] \<longrightarrow> V1 tr = 0"
    "attrsNamed ''v2'' attrs = [] \<longrightarrow> V2 tr = 0"
    "attrsNamed ''v3'' attrs = [] \<longrightarrow> V3 tr = 0"
    by (simp_all add: tr_def s_def triangle_loop triangleVars0_fields)
  have "reported (fst (triangleDecoder_Start d attrs mesh)) = errs s"
    by (simp add: triangleDecoder_Start_def Let_def reported_def s_def)
  also have "\<dots> = concat (map triangleAttrError attrs)"
    by (simp add: s_def triangle_loop triangleVars0_fields)
  finally have "\<forall>fe \<in> set (reported (fst (triangleDecoder_Start d attrs mesh))).
        \<exists>a \<in> set attrs. \<exists>r. fe = ParseAttrError (Local (AName a)) r \<and>
          snd (ParseUint (Value a) 24) \<noteq> None"
    by (auto simp add: triangleAttrError_def split: if_splits)
  with appended vertices show ?thesis
    by blast
qed

lemma triangle_vertex_index_example:
  "\<exists>tr. snd (triangleDecoder_Start \<lparr>defaultPropertyIndex = 2, defaultPropertyID = 5\<rparr>
             [\<lparr>AName = \<lparr>Space = [], Local = ''p1''\<rparr>, Value = ''9''\<rparr>]
             \<lparr>Vertices = [], Triangles = []\<rparr>)
          = \<lparr>Vertices = [], Triangles = [tr]\<rparr> \<and>
        V1 tr = 0 \<and> V2 tr = 0 \<and> V3 tr = 0 \<and>
        reported (fst (triangleDecoder_Start \<lparr>defaultPropertyIndex = 2, defaultPropertyID = 5\<rparr>
             [\<lparr>AName = \<lparr>Space = [], Local = ''p1''\<rparr>, Value = ''9''\<rparr>]
             \<lparr>Vertices = [], Triangles = []\<rparr>)) = []"
proof -
  have quiet: "reported (fst (triangleDecoder_Start \<lparr>defaultPropertyIndex = 2, defaultPropertyID = 5\<rparr>
             [\<lparr>AName = \<lparr>Space = [], Local = ''p1''\<rparr>, Value = ''9''\<rparr>]
             \<lparr>Vertices = [], Triangles = []\<rparr>)) = []"
    by (simp add: triangleDecoder_Start_def triangleAttr_def triangleVars0_def Let_def
        ParseUint_9 reported_def)
  show ?thesis
    using triangle_vertex_index_by_local_name
      [of "\<lparr>defaultPropertyIndex = 2, defaultPropertyID = 5\<rparr>"
          "[\<lparr>AName = \<lparr>Space = [], Local = ''p1''\<rparr>, Value = ''9''\<rparr>]"
          "\<lparr>Vertices = [], Triangles = []\<rparr>"] quiet
    by (simp add: attrsNamed_def)
qed

text \<open>
  C10. A triangle without a \<open>v1\<close> attribute is to get the vertex index zero. The
  decoder appends one triangle and reports no error, but for a triangle that has no
  \<open>v1\<close> of its own and carries an attribute of another namespace whose local name is
  \<open>v1\<close>, the first vertex index it stores is the value of that attribute, \<open>4\<close>,
  not zero.
\<close>

theorem triangle_foreign_v1_read_as_v1:
  "coreAttrs ''v1'' foreignV1Attrs = [] \<and>
   triangleDecoder_Start \<lparr>defaultPropertyIndex = 2, defaultPropertyID = 5\<rparr> foreignV1Attrs
       \<lparr>Vertices = [], Triangles = []\<rparr>
     = (None, \<lparr>Vertices = [],
               Triangles = [\<lparr>V1 = 4, V2 = 1, V3 = 2, PID = 5, P1 = 2, P2 = 2, P3 = 2\<rparr>]\<rparr>)"
  by (simp add: coreAttrs_def foreignV1Attrs_def triangleDecoder_Start_def triangleAttr_def
      triangleVars0_def zeroTriangle_def applyDefault_def ToUint24_def Let_def ParseUint_small)












section \<open>Properties of the extension collections\<close>

text \<open>
  C9. On a nil or empty collection both \<open>Get\<close> methods return false, whatever the
  target is, the nil target included; a call that panics was made on a collection with
  at least one entry.
\<close>

theorem Get_on_empty_collection:
  "((e = None \<or> e = Some []) \<longrightarrow>
      ExtensionsAttr_Get R e target = Return False None \<and>
      Extensions_Get R e target = Return False None) \<and>
   ((\<exists>m. ExtensionsAttr_Get R e target = Panic m \<or> Extensions_Get R e target = Panic m) \<longrightarrow>
      (\<exists>v vs. e = Some (v # vs)))"
  by (cases e; cases "the e")
     (auto simp add: ExtensionsAttr_Get_def Extensions_Get_def)

theorem Get_on_empty_collection_witness:
  "ExtensionsAttr_Get noTypes None NilTarget = Return False None \<and>
   Extensions_Get noTypes (Some []) NilTarget = Return False None \<and>
   ExtensionsAttr_Get noTypes (Some [None]) NilTarget = Panic ''go3mf: target cannot be nil'' \<and>
   (\<exists>v vs. Some [None :: unit option] = Some (v # vs))"
  using Get_on_empty_collection [of None noTypes NilTarget]
    Get_on_empty_collection [of "Some []" noTypes NilTarget]
    Get_on_empty_collection [of "Some [None]" noTypes NilTarget]
  by (simp add: ExtensionsAttr_Get_def)


section \<open>Properties of the package walk\<close>

lemma hasPath_iff: "hasPath E atts n \<longleftrightarrow> (\<exists>att \<in> set atts. E (aPath att) n)"
  by (induction atts) auto

lemma distinctFold_snoc:
  "distinctFold E (atts @ [a]) \<longleftrightarrow> distinctFold E atts \<and> \<not> hasPath E atts (aPath a)"
  by (induction atts) (auto simp add: hasPath_iff)

lemma addAttachment_known: "hasPath E atts (Name file) \<Longrightarrow> addAttachment E atts file = atts"
  by (simp add: addAttachment_def)

lemma addAttachment_distinct:
  "distinctFold E atts \<Longrightarrow> distinctFold E (addAttachment E atts file)"
  by (auto simp add: addAttachment_def distinctFold_snoc split: prod.splits option.splits)

lemma attachRootRelationship_distinct:
  "distinctFold E (mAttachments model) \<Longrightarrow>
   distinctFold E (mAttachments (attachRootRelationship E d r model))"
  by (simp add: attachRootRelationship_def addAttachment_distinct split: option.splits)

lemma extractRelationship_distinct:
  "distinctFold E (mAttachments (snd dm)) \<Longrightarrow>
   distinctFold E (mAttachments (snd (extractRelationship E f isRoot rel dm)))"
  by (cases dm)
     (simp add: extractRelationship_def addAttachment_distinct split: option.splits)

lemma fold_extractRelationship_distinct:
  "distinctFold E (mAttachments (snd dm)) \<Longrightarrow>
   distinctFold E (mAttachments (snd (fold (extractRelationship E f isRoot) rels dm)))"
  by (induction rels arbitrary: dm) (simp_all add: extractRelationship_distinct)

lemma extractCoreAttachments_distinct:
  "distinctFold E (mAttachments (snd dm)) \<Longrightarrow>
   distinctFold E (mAttachments (snd (extractCoreAttachments E f isRoot dm)))"
  by (simp add: extractCoreAttachments_def fold_extractRelationship_distinct)

lemma fold_extractCoreAttachments_distinct:
  "distinctFold E (mAttachments (snd dm)) \<Longrightarrow>
   distinctFold E (mAttachments (snd (fold (\<lambda>f. extractCoreAttachments E f isRoot) fs dm)))"
  by (induction fs arbitrary: dm) (simp_all add: extractCoreAttachments_distinct)

lemma processRelationships_distinct:
  "distinctFold E (mAttachments model) \<Longrightarrow>
   distinctFold E (mAttachments (snd (snd (processRelationships E rs rootFile d model))))"
proof (induction rs arbitrary: rootFile d model)
  case Nil
  then show ?case by simp
next
  case (Cons r rs)
  show ?case
  proof (cases "rType r = RelType3DModel")
    case True
    show ?thesis
    proof (cases "pFindFileFromName (pkg d) (rPath r)")
      case None
      with True Cons.prems show ?thesis by simp
    next
      case (Some rf)
      have "distinctFold E (mAttachments (snd (fold (\<lambda>f. extractCoreAttachments E f False)
              (nonRootModels (fst (extractCoreAttachments E rf True (d, model\<lparr>mPath := Name rf\<rparr>))))
              (extractCoreAttachments E rf True (d, model\<lparr>mPath := Name rf\<rparr>)))))"
        using Cons.prems
        by (intro fold_extractCoreAttachments_distinct extractCoreAttachments_distinct) simp
      with True Some show ?thesis
        by (simp add: Let_def Cons.IH)
    qed
  next
    case False
    with Cons.prems show ?thesis
      by (simp add: Cons.IH attachRootRelationship_distinct)
  qed
qed

lemma processOPC_distinct:
  "distinctFold E (mAttachments model) \<Longrightarrow>
   distinctFold E (mAttachments (snd (snd (processOPC E d model))))"
  using processRelationships_distinct [of E model "pRelationships (pkg d)" None d]
  by (auto simp add: processOPC_def split: option.splits prod.splits sum.splits)

text \<open>
  C8. Adding a part whose name folds to the path of an entry of the attachment list
  returns the list as it is. So a list in which no entry is followed by an entry of
  the same folded path stays such a list under \<^verbatim>\<open>addAttachment\<close>, and under the
  whole package walk of \<^verbatim>\<open>processOPC\<close>, which adds attachments in no other way.
\<close>

theorem attachments_distinct_up_to_case:
  "((\<exists>att \<in> set atts. E (aPath att) (Name file)) \<longrightarrow> addAttachment E atts file = atts) \<and>
   (distinctFold E atts \<longrightarrow> distinctFold E (addAttachment E atts file)) \<and>
   (distinctFold E (mAttachments model) \<longrightarrow>
      distinctFold E (mAttachments (snd (snd (processOPC E d model)))))"
  by (simp add: addAttachment_known hasPath_iff addAttachment_distinct processOPC_distinct)

lemma processRelationships_before_model:
  "\<forall>q \<in> set pre. rType q \<noteq> RelType3DModel \<Longrightarrow>
   processRelationships E (pre @ post) rootFile d model =
   processRelationships E post rootFile d (fold (attachRootRelationship E d) pre model)"
  by (induction pre arbitrary: model) simp_all

lemma attachRootRelationship_unresolved:
  "\<forall>q \<in> set pre. pFindFileFromName (pkg d) (rPath q) = None \<Longrightarrow>
   fold (attachRootRelationship E d) pre model = model"
  by (induction pre arbitrary: model) (simp_all add: attachRootRelationship_def)

text \<open>
  C4, as the code has it. Let the container open, and let the relationships of the
  package begin with \<open>pre\<close>, none of them of the 3D-model type, followed either by
  nothing or by a 3D-model relationship whose target is not a part of the container.
  Then the decode returns an error and decodes nothing. The model it leaves behind
  has got the relationships of \<open>pre\<close> that resolve to a part, and their parts as
  attachments; it is the model of the caller if none of them resolves.
\<close>

theorem missing_root_model_is_fatal:
  assumes "pOpen (pkg d) = None"
    and "pRelationships (pkg d) = pre @ post"
    and "\<forall>q \<in> set pre. rType q \<noteq> RelType3DModel"
    and "post = [] \<or> (rType (hd post) = RelType3DModel \<and>
                       pFindFileFromName (pkg d) (rPath (hd post)) = None)"
  shows "DecodeContext H E sched ctx d model =
           Inr (Some (Err (if post = [] then ''package does not have root model''
                           else ''package root model points to an unexisting file'')),
                d, fold (attachRootRelationship E d) pre model) \<and>
         ((\<forall>q \<in> set pre. pFindFileFromName (pkg d) (rPath q) = None) \<longrightarrow>
            fold (attachRootRelationship E d) pre model = model)"
proof -
  have walk: "processRelationships E (pRelationships (pkg d)) None d model =
                processRelationships E post None d (fold (attachRootRelationship E d) pre model)"
    using assms(2,3) by (simp add: processRelationships_before_model)
  have "processOPC E d model =
          (Inl (Err (if post = [] then ''package does not have root model''
                     else ''package root model points to an unexisting file'')),
           d, fold (attachRootRelationship E d) pre model)"
  proof (cases post)
    case Nil
    with walk assms(1) show ?thesis
      by (simp add: processOPC_def)
  next
    case (Cons r rs)
    with assms(4) have "rType r = RelType3DModel" "pFindFileFromName (pkg d) (rPath r) = None"
      by simp_all
    with walk assms(1) Cons show ?thesis
      by (simp add: processOPC_def)
  qed
  then show ?thesis
    by (simp add: DecodeContext_def attachRootRelationship_unresolved)
qed


section \<open>Properties of the concurrent phase\<close>

lemma Store_fresh: "k \<notin> fst ` set m \<Longrightarrow> Store k v m = m @ [(k, v)]"
  by (force simp add: Store_def filter_id_conv)

lemma runTask_success:
  assumes "i < length (nonRootModels d)"
    and "readChildModel H None i d model = Inr (Some s, None)"
    and "\<not> cancelled ts"
  shows "runTask H None d model i ts =
           Inr (ts\<lparr>started := started ts @ [ReadChildModel i],
                   files := Store i (Some s) (files ts)\<rparr>)"
  using assms by (simp add: runTask_def Let_def)

lemma runTasks_success:
  assumes "\<forall>i \<in> set sched. i < length (nonRootModels d) \<and>
             readChildModel H None i d model = Inr (Some (sc i), None)"
    and "\<not> cancelled ts" and "distinct sched" and "set sched \<inter> fst ` set (files ts) = {}"
  shows "runTasks H None d model sched ts =
           Inr (ts\<lparr>started := started ts @ map ReadChildModel sched,
                   files := files ts @ map (\<lambda>i. (i, Some (sc i))) sched\<rparr>)"
  using assms
proof (induction sched arbitrary: ts)
  case Nil
  then show ?case by simp
next
  case (Cons i sched)
  let ?ts = "ts\<lparr>started := started ts @ [ReadChildModel i],
                 files := files ts @ [(i, Some (sc i))]\<rparr>"
  have fresh: "i \<notin> fst ` set (files ts)"
    using Cons.prems(4) by auto
  have one: "runTask H None d model i ts = Inr ?ts"
    using Cons.prems(1,2) fresh by (simp add: runTask_success Store_fresh)
  have "runTasks H None d model sched ?ts =
          Inr (?ts\<lparr>started := started ?ts @ map ReadChildModel sched,
                    files := files ?ts @ map (\<lambda>i. (i, Some (sc i))) sched\<rparr>)"
    using Cons.prems by (intro Cons.IH) auto
  with one show ?case
    by simp
qed

lemma mergeFiles_ascending:
  "\<forall>i \<in> set indices. map_of fs i = Some (Some (sc i)) \<Longrightarrow>
   mergeFiles fs indices d model = mergeAscending (map sc indices) d model"
  by (induction indices arbitrary: d model) (simp_all split: sum.splits prod.splits)

lemma sort_permutation_upt: "mset sched = mset [0..<n] \<Longrightarrow> sort sched = [0..<n]"
  by (rule properties_for_sort) simp_all

lemma mergeAscending_Warnings:
  "mergeAscending ps d model = Inr (d', model') \<Longrightarrow>
   Warnings d' = Warnings d @ concat (map sWarnings ps)"
proof (induction ps arbitrary: d model)
  case Nil
  then show ?case by simp
next
  case (Cons p ps)
  then show ?case
    by (fastforce simp add: addChildModelFile_def split: sum.splits option.splits)
qed

text \<open>
  C5. Let the schedule be any order in which the tasks of the auxiliary parts complete
  (a permutation of their indices), with a live context and every part read without
  error, part \<open>i\<close> giving the scanner \<open>sc i\<close>. Then \<^verbatim>\<open>processNonRootModels\<close> merges
  the scanners in ascending index order: its result is that of merging
  \<open>sc 0, sc 1, \<dots>\<close> one after the other, whatever the schedule, and the warnings of
  the decoder are extended by the warnings of the parts in that order.
\<close>

theorem auxiliary_parts_merged_in_index_order:
  assumes "mset sched = mset [0..<length (nonRootModels d)]"
    and "\<forall>i < length (nonRootModels d). readChildModel H None i d model = Inr (Some (sc i), None)"
  shows "processNonRootModels H sched None d model =
           (case mergeAscending (map sc [0..<length (nonRootModels d)])
                   (d\<lparr>decoded := decoded d @ map ReadChildModel sched\<rparr>) model of
              Inl e \<Rightarrow> Inl e
            | Inr (d', model') \<Rightarrow> Inr (None, d', model')) \<and>
         (\<forall>e d' model'. processNonRootModels H sched None d model = Inr (e, d', model') \<longrightarrow>
            e = None \<and>
            Warnings d' = Warnings d @
              concat (map (\<lambda>i. sWarnings (sc i)) [0..<length (nonRootModels d)]))"
proof -
  let ?n = "length (nonRootModels d)"
  let ?d1 = "d\<lparr>decoded := decoded d @ map ReadChildModel sched\<rparr>"
  let ?fs = "map (\<lambda>i. (i, Some (sc i))) sched"
  have members: "set sched = {0..<?n}"
    using assms(1) by (metis mset_eq_setD set_upt)
  have "distinct sched"
    using assms(1) by (metis distinct_upt mset_eq_imp_distinct_iff)
  with members assms(2)
  have run: "runTasks H None d model sched tasks0 =
               Inr (tasks0\<lparr>started := map ReadChildModel sched, files := ?fs\<rparr>)"
    using runTasks_success [of sched d H model sc tasks0]
    by (simp add: tasks0_def)
  have keys: "sort (map fst ?fs) = [0..<?n]"
    using assms(1) by (simp add: comp_def sort_permutation_upt)
  have "\<forall>i \<in> set [0..<?n]. map_of ?fs i = Some (Some (sc i))"
    using members by (simp add: map_of_map_restrict)
  then have merge: "mergeFiles ?fs [0..<?n] ?d1 model = mergeAscending (map sc [0..<?n]) ?d1 model"
    by (rule mergeFiles_ascending)
  have result: "processNonRootModels H sched None d model =
           (case mergeAscending (map sc [0..<?n]) ?d1 model of
              Inl e \<Rightarrow> Inl e
            | Inr (d', model') \<Rightarrow> Inr (None, d', model'))"
    using run keys merge
    by (simp add: processNonRootModels_def tasks0_def Let_def del: upt.simps)
  have "e = None \<and> Warnings d' = Warnings d @ concat (map (\<lambda>i. sWarnings (sc i)) [0..<?n])"
    if "processNonRootModels H sched None d model = Inr (e, d', model')" for e d' model'
  proof -
    from that result
    have "mergeAscending (map sc [0..<?n]) ?d1 model = Inr (d', model')" and "e = None"
      by (auto split: sum.splits)
    then show ?thesis
      using mergeAscending_Warnings [of "map sc [0..<?n]" ?d1 model d' model']
      by (simp add: comp_def del: upt.simps)
  qed
  with result show ?thesis
    by blast
qed


section \<open>Properties of the order of the part decodes\<close>













section \<open>Properties of the scan\<close>

lemma handleToken_scanner_error:
  "handleToken H ctx eerr (v\<lparr>scanner := (scanner v)\<lparr>sErr := x\<rparr>\<rparr>) tok off rest =
   handleToken H ctx eerr v tok off rest"
  by (simp add: handleToken_def Let_def split: Token.splits option.splits)

lemma scanLoop_scanner_error:
  "scanLoop H ctx eerr (v\<lparr>scanner := (scanner v)\<lparr>sErr := x\<rparr>\<rparr>) its = scanLoop H ctx eerr v its"
proof (cases its)
  case Nil
  then show ?thesis by simp
next
  case (Cons it rest)
  then show ?thesis
    by (cases it) (simp add: handleToken_scanner_error)
qed

lemma Skip_nested:
  "nesting sub k = Some k' \<Longrightarrow> Skip (depth + k) (sub @ rest) = Skip (depth + k') rest"
proof (induction sub k arbitrary: depth rule: nesting.induct)
  case (3 n off rest' k)
  then show ?case
    by (cases k) simp_all
qed simp_all

lemma Skip_subtree:
  "nesting sub 0 = Some 0 \<Longrightarrow> Skip 0 (sub @ (EndElement n, off) # rest) = Some rest"
  using Skip_nested [of sub 0 0 0 "(EndElement n, off) # rest"] by simp

text \<open>
  C7. When the current decoder offers no child decoder for a start element, and the
  element is complete in the stream (its content \<open>sub\<close> is a run of complete elements
  and its end element follows), the loop calls no decoder for the subtree and changes
  none of its variables: scanning goes on after the end element from the state it had
  before the start element, so the document decodes as if the subtree were not there.
\<close>

theorem unknown_subtree_is_skipped:
  assumes "Child H (currentDecoder v) name ((scanner v)\<lparr>sErr := None\<rparr>) = None"
    and "nesting sub 0 = Some 0"
  shows "handleToken H ctx eerr v (StartElement name attrs) off
            (sub @ (EndElement name' , off') # rest) =
           Inr (v\<lparr>scanner := (scanner v)\<lparr>sErr := None\<rparr>\<rparr>, rest) \<and>
         scanLoop H ctx eerr v
            ((StartElement name attrs, off) # sub @ (EndElement name', off') # rest) =
           scanLoop H ctx eerr v rest"
proof -
  have step: "handleToken H ctx eerr v (StartElement name attrs) off
            (sub @ (EndElement name' , off') # rest) =
           Inr (v\<lparr>scanner := (scanner v)\<lparr>sErr := None\<rparr>\<rparr>, rest)"
    using assms by (simp add: handleToken_def Skip_subtree)
  then show ?thesis
    by (simp add: scanLoop_scanner_error)
qed

section \<open>The example package\<close>

lemma ParseUint_x: "ParseUint ''x'' 32 = (0, Some ErrSyntax)"
  by (simp add: ParseUint_def)

lemmas example_defs = exampleDecoder_def exampleStart_def topLevelDecoder_Child_def
  coreName_def extName_def attrModel_def Namespace_def handleToken_def Let_def
  checkEveryBytes_def ParseUint_x exampleTokenReader_def exampleDocument_def modelContent_def
  decodeModelFile_def scannedPart_def

lemmas package_defs = examplePackage_def rootlessPackage_def danglingPackage_def
  brokenPackage_def unreadableModel_def
  exampleDecoding_def emptyModel_def rootModel_def otherModel_def modelPart_def imagePart_def
  thumbnailRel_def RelType3DModel_def processOPC_def extractCoreAttachments_def
  extractRelationship_def attachRootRelationship_def addAttachment_def copyFile_def
  newChildModel_def asciiEqualFold_def lowerCode_def

lemmas decode_defs = DecodeContext_def processNonRootModels_def runTask_def readChildModel_def
  tasks0_def Store_def addChildModelFile_def processRootModel_def addModelFile_def
  UnmarshalModel_def fakePackageFile_def DefaultModelPath_def ContentType3DModel_def

lemmas after_defs = returned_def warningsAfter_def decodedAfter_def
  attachmentsAfter_def

lemma example_decodes:
  "\<exists>e d' model'. DecodeContext exampleDecoder asciiEqualFold [0] None
       (exampleDecoding examplePackage) emptyModel = Inr (e, d', model')"
  by (simp add: decode_defs package_defs example_defs)

lemma example_returns:
  "returned (DecodeContext exampleDecoder asciiEqualFold [0] None
       (exampleDecoding examplePackage) emptyModel) = Inr None"
  by (simp add: decode_defs package_defs example_defs after_defs)


section \<open>The decode of the example package\<close>



text \<open>
  A package with a thumbnail and no root model: the decode fails, and the model of the
  caller, empty before, holds the thumbnail as an attachment afterwards.
\<close>

theorem rootless_package_changes_model:
  "returned (DecodeContext exampleDecoder asciiEqualFold [] None
       (exampleDecoding rootlessPackage) emptyModel)
     = Inr (Some (Err ''package does not have root model'')) \<and>
   attachmentsAfter (DecodeContext exampleDecoder asciiEqualFold [] None
       (exampleDecoding rootlessPackage) emptyModel)
     = Inr [\<lparr>aStream = ''PNG'', aPath = ''/Thumb.png'', aContentType = ''image/png''\<rparr>] \<and>
   mAttachments emptyModel = []"
  by (simp add: decode_defs package_defs after_defs)

theorem missing_root_model_is_fatal_witness:
  "DecodeContext exampleDecoder asciiEqualFold [] None
       (exampleDecoding danglingPackage) emptyModel
     = Inr (Some (Err ''package root model points to an unexisting file''),
            exampleDecoding danglingPackage, emptyModel) \<and>
   DecodeContext exampleDecoder asciiEqualFold [] None
       (exampleDecoding rootlessPackage) emptyModel
     = Inr (Some (Err ''package does not have root model''),
            exampleDecoding rootlessPackage,
            attachRootRelationship asciiEqualFold (exampleDecoding rootlessPackage)
              thumbnailRel emptyModel)"
  using missing_root_model_is_fatal
    [of "exampleDecoding danglingPackage" "[thumbnailRel]"
        "[\<lparr>rPath = ''/3D/3dmodel.model'', rType = RelType3DModel\<rparr>]"
        exampleDecoder asciiEqualFold "[]" None emptyModel]
    missing_root_model_is_fatal
    [of "exampleDecoding rootlessPackage" "[thumbnailRel]" "[]"
        exampleDecoder asciiEqualFold "[]" None emptyModel]
  by (simp add: exampleDecoding_def danglingPackage_def rootlessPackage_def examplePackage_def
      thumbnailRel_def RelType3DModel_def)

text \<open>
  Two auxiliary parts whose tasks complete in the order 1, 0: the warnings of part 0
  come first all the same.
\<close>

theorem auxiliary_parts_merged_in_index_order_witness:
  "warningsAfter (processNonRootModels exampleDecoder [1, 0] None twoParts twoPartsModel)
     = Inr [Err ''/3D/a.model: invalid object'', Err ''/3D/b.model: invalid object'']"
proof -
  let ?sc = "\<lambda>i::nat. scannedPart (if i = 0 then ''/3D/a.model'' else ''/3D/b.model'')"
  have parts: "length (nonRootModels twoParts) = 2"
    by (simp add: twoParts_def)
  have upt2: "[0..<2] = [0, Suc 0]"
    by (simp add: numeral_2_eq_2)
  have schedule: "mset [1, 0] = mset [0..<length (nonRootModels twoParts)]"
    by (simp add: parts upt2)
  have reads: "\<forall>i < length (nonRootModels twoParts).
      readChildModel exampleDecoder None i twoParts twoPartsModel = Inr (Some (?sc i), None)"
    by (simp add: parts numeral_2_eq_2 less_Suc_eq twoParts_def twoPartsModel_def
        readChildModel_def package_defs example_defs)
  have "\<exists>d' model'. mergeAscending (map ?sc [0..<length (nonRootModels twoParts)])
          (twoParts\<lparr>decoded := decoded twoParts @ map ReadChildModel [1, 0]\<rparr>) twoPartsModel
          = Inr (d', model')"
    by (simp add: parts upt2 addChildModelFile_def twoPartsModel_def scannedPart_def emptyModel_def)
  with auxiliary_parts_merged_in_index_order [OF schedule reads]
  obtain d' model' where
    result: "processNonRootModels exampleDecoder [1, 0] None twoParts twoPartsModel
               = Inr (None, d', model')"
    and "Warnings d' = Warnings twoParts @
           concat (map (\<lambda>i. sWarnings (?sc i)) [0..<length (nonRootModels twoParts)])"
    by (auto split: sum.splits)
  then show ?thesis
    by (simp add: warningsAfter_def parts upt2 scannedPart_def twoParts_def exampleDecoding_def)
qed

text \<open>
  Inside the \<^verbatim>\<open>model\<close> element, an element of a namespace without a decoder, three
  levels deep: scanning it and the rest of the model is scanning the rest of the model.
\<close>

theorem unknown_subtree_is_skipped_witness:
  "Child exampleDecoder (currentDecoder insideModel) (extName ''a'')
     ((scanner insideModel)\<lparr>sErr := None\<rparr>) = None \<and>
   nesting extensionContent 0 = Some 0 \<and>
   scanLoop exampleDecoder None EOF insideModel
     ((StartElement (extName ''a'') [], 11) # extensionContent @
        (EndElement (extName ''a''), 17) # modelContent)
     = scanLoop exampleDecoder None EOF insideModel modelContent \<and>
   map_sum id sResources (scanLoop exampleDecoder None EOF insideModel modelContent)
     = Inr [''object'', ''item'']"
proof -
  have offered: "Child exampleDecoder (currentDecoder insideModel) (extName ''a'')
     ((scanner insideModel)\<lparr>sErr := None\<rparr>) = None"
    by (simp add: insideModel_def exampleDecoder_def extName_def Namespace_def)
  have complete: "nesting extensionContent 0 = Some 0"
    by (simp add: extensionContent_def)
  have rest: "map_sum id sResources
                (scanLoop exampleDecoder None EOF insideModel modelContent)
              = Inr [''object'', ''item'']"
    by (simp add: insideModel_def example_defs)
  from unknown_subtree_is_skipped [OF offered complete, of None EOF "[]" 11 "extName ''a''" 17
      modelContent] offered complete rest
  show ?thesis
    by blast
qed

text \<open>
  A thumbnail that is in the list under another spelling is not added again.
\<close>

theorem attachments_distinct_up_to_case_witness:
  "addAttachment asciiEqualFold
     [\<lparr>aStream = ''PNG'', aPath = ''/Thumb.png'', aContentType = ''image/png''\<rparr>]
     (imagePart ''/THUMB.PNG'')
     = [\<lparr>aStream = ''PNG'', aPath = ''/Thumb.png'', aContentType = ''image/png''\<rparr>] \<and>
   distinctFold asciiEqualFold
     (mAttachments (snd (snd (processOPC asciiEqualFold (exampleDecoding examplePackage)
        emptyModel))))"
  using attachments_distinct_up_to_case
    [of "[\<lparr>aStream = ''PNG'', aPath = ''/Thumb.png'', aContentType = ''image/png''\<rparr>]"
        asciiEqualFold "imagePart ''/THUMB.PNG''" emptyModel "exampleDecoding examplePackage"]
  by (simp add: asciiEqualFold_def lowerCode_def imagePart_def emptyModel_def)

end
